theory Spec2Isabelle
  imports Main
begin

section \<open>Values and promises\<close>

text \<open>
  The wrapper in \<^verbatim>\<open>src/index.ts\<close> moves plain data around: entries are object
  literals, keys are strings or numbers, error payloads are small objects. \<open>jsval\<close> is that
  data. Numbers are the integer-valued ones (floating point is not modelled). The one kind of
  value that is not data is \<open>JBuiltin n\<close>: what a read of the name \<open>n\<close> finds on
  \<^verbatim>\<open>Object.prototype\<close>, a built-in function or, for \<^verbatim>\<open>__proto__\<close>, the prototype
  itself. None of these has a \<^verbatim>\<open>then\<close> method, so no value is a thenable: resolving a
  promise with a \<open>jsval\<close> fulfils it.
\<close>

datatype jsval =
    JUndefined
  | JNull
  | JBool bool
  | JNum int
  | JStr string
  | JArr "jsval list"
  | JObj "(string \<times> jsval) list"
  | JBuiltin string

text \<open>
  An entry is an object literal: its own properties, in the order they were written, with
  \<^verbatim>\<open>Object.prototype\<close> as its prototype. A well-formed object has no repeated property
  name. \<open>Object_prototype\<close> lists the names the language defines on
  \<^verbatim>\<open>Object.prototype\<close> (a program that adds names to it is outside the model).
  \<open>get_prop item k\<close> is the read \<^verbatim>\<open>item[key]\<close>: the own property when there is one,
  else what the prototype holds under that name, else \<^verbatim>\<open>undefined\<close>. A batch holds
  objects only: the read \<^verbatim>\<open>item[key]\<close> on \<^verbatim>\<open>null\<close> or \<^verbatim>\<open>undefined\<close>, which
  throws, is outside the model.
\<close>

type_synonym entry = "(string \<times> jsval) list"

definition Object_prototype :: "string list" where
  "Object_prototype =
     [''constructor'', ''__defineGetter__'', ''__defineSetter__'', ''hasOwnProperty'',
      ''__lookupGetter__'', ''__lookupSetter__'', ''isPrototypeOf'', ''propertyIsEnumerable'',
      ''toString'', ''valueOf'', ''__proto__'', ''toLocaleString'']"

definition get_prop :: "entry \<Rightarrow> string \<Rightarrow> jsval" where
  "get_prop item k =
     (case map_of item k of
        Some v \<Rightarrow> v
      | None \<Rightarrow> if k \<in> set Object_prototype then JBuiltin k else JUndefined)"

text \<open>
  A promise is pending, fulfilled or rejected. The two functions an executor receives act only
  on a pending promise; a later call is ignored, as the language defines it.
\<close>

datatype ('v, 'e) promise = Pending | Fulfilled 'v | Rejected 'e

definition resolve :: "'v \<Rightarrow> ('v, 'e) promise \<Rightarrow> ('v, 'e) promise" where
  "resolve v p = (case p of Pending \<Rightarrow> Fulfilled v | Fulfilled u \<Rightarrow> Fulfilled u | Rejected e \<Rightarrow> Rejected e)"

definition reject :: "'e \<Rightarrow> ('v, 'e) promise \<Rightarrow> ('v, 'e) promise" where
  "reject e p = (case p of Pending \<Rightarrow> Rejected e | Fulfilled u \<Rightarrow> Fulfilled u | Rejected d \<Rightarrow> Rejected d)"


text \<open>
  \<^verbatim>\<open>p.then(f)\<close> and \<^verbatim>\<open>p.catch(g)\<close>, for a promise in its final state. The callback
  runs on the program state \<open>t\<close> and returns the state the derived promise adopts: \<open>Fulfilled x\<close> when
  it returns the plain value \<open>x\<close>, \<open>Rejected e\<close> when it returns \<^verbatim>\<open>Promise.reject(e)\<close>.
  A promise that stays pending never runs a callback.
\<close>

definition then_p ::
  "('a, 'e) promise \<Rightarrow> ('a \<Rightarrow> 't \<Rightarrow> ('b, 'e) promise \<times> 't) \<Rightarrow> 't \<Rightarrow> ('b, 'e) promise \<times> 't" where
  "then_p p onFulfilled t =
     (case p of
        Pending \<Rightarrow> (Pending, t)
      | Fulfilled v \<Rightarrow> onFulfilled v t
      | Rejected e \<Rightarrow> (Rejected e, t))"

definition catch_p ::
  "('a, 'e) promise \<Rightarrow> ('e \<Rightarrow> 't \<Rightarrow> ('a, 'e) promise \<times> 't) \<Rightarrow> 't \<Rightarrow> ('a, 'e) promise \<times> 't" where
  "catch_p p onRejected t =
     (case p of
        Pending \<Rightarrow> (Pending, t)
      | Fulfilled v \<Rightarrow> (Fulfilled v, t)
      | Rejected e \<Rightarrow> onRejected e t)"

text \<open>
  \<^verbatim>\<open>Promise.all(promises)\<close> over promises in their final states, joined in index order:
  it rejects with the first rejection, fulfils with all the values in the order of the
  promises when every one is fulfilled, and stays pending otherwise. The language takes the
  rejection that comes first in time; the promises of a batch over the mock are all settled
  when they are joined, so their reactions run in index order.
\<close>

fun Promise_all :: "('v, 'e) promise list \<Rightarrow> ('v list, 'e) promise" where
  "Promise_all [] = Fulfilled []"
| "Promise_all (p # ps) =
     (case p of
        Rejected e \<Rightarrow> Rejected e
      | Fulfilled v \<Rightarrow>
          (case Promise_all ps of
             Fulfilled vs \<Rightarrow> Fulfilled (v # vs)
           | Rejected e \<Rightarrow> Rejected e
           | Pending \<Rightarrow> Pending)
      | Pending \<Rightarrow>
          (case Promise_all ps of
             Rejected e \<Rightarrow> Rejected e
           | Fulfilled vs \<Rightarrow> Pending
           | Pending \<Rightarrow> Pending))"

section \<open>Requests\<close>

text \<open>
  A request is an event target with a \<^verbatim>\<open>result\<close>. Three kinds reach the adapter:
  \<^item> the mock's \<^verbatim>\<open>new Proxy({ result }, { set: set(opts) })\<close>, whose \<^verbatim>\<open>set\<close> trap
    sees every handler assignment;
  \<^item> the browser's \<^verbatim>\<open>IDBRequest\<close> and \<^verbatim>\<open>IDBOpenDBRequest\<close>, which store a handler
    when it is assigned and call it when the engine fires the event.
  The engine is outside the program, so a browser request carries the events the engine will
  fire on it, in order; a success or upgrade-needed event carries the value
  \<^verbatim>\<open>idbRequest.result\<close> has when it fires, an error event the event object.
\<close>

record MockSetFunctionOptions =
  succeed :: bool
  error :: "string option"

datatype 'v event = Ev_success 'v | Ev_error jsval | Ev_upgradeneeded 'v

datatype 'v request =
    Proxy 'v MockSetFunctionOptions
  | IDBRequest "'v event list"
  | IDBOpenDBRequest "'v event list"

definition instanceof_IDBOpenDBRequest :: "'v request \<Rightarrow> bool" where
  "instanceof_IDBOpenDBRequest idbRequest =
     (case idbRequest of
        Proxy r opts \<Rightarrow> False
      | IDBRequest evs \<Rightarrow> False
      | IDBOpenDBRequest evs \<Rightarrow> True)"

definition events_of :: "'v request \<Rightarrow> 'v event list" where
  "events_of idbRequest =
     (case idbRequest of
        Proxy r opts \<Rightarrow> []
      | IDBRequest evs \<Rightarrow> evs
      | IDBOpenDBRequest evs \<Rightarrow> evs)"

text \<open>
  The mock's \<^verbatim>\<open>set\<close> trap (lines 125-135). \<open>func\<close> is the handler being assigned, a
  function of its arguments on whatever state it closes over. The error text is the template
  \<^verbatim>\<open>`We messed up: ${mockSetFuncOpts.error}`\<close>, which prints a missing \<^verbatim>\<open>error\<close> as
  \<^verbatim>\<open>undefined\<close>. The trap stores nothing on its target.
\<close>

definition error_payload :: "MockSetFunctionOptions \<Rightarrow> jsval" where
  "error_payload mockSetFuncOpts =
     JObj [(''error'', JStr (''We messed up: '' @
       (case error mockSetFuncOpts of None \<Rightarrow> ''undefined'' | Some e \<Rightarrow> e)))]"

definition set_fn ::
  "MockSetFunctionOptions \<Rightarrow> string \<Rightarrow> (jsval list \<Rightarrow> 'a \<Rightarrow> 'a) \<Rightarrow> 'a \<Rightarrow> 'a" where
  "set_fn mockSetFuncOpts name func st =
     (let st1 = (if name = ''onsuccess'' \<and> succeed mockSetFuncOpts then func [] st else st)
      in if name = ''onerror'' \<and> \<not> succeed mockSetFuncOpts
         then func [error_payload mockSetFuncOpts] st1
         else st1)"

section \<open>The event-to-promise adapter\<close>

text \<open>
  \<^verbatim>\<open>IndexedDBRequestWrapper\<close> (lines 22-54). The executor's state is the promise it settles
  and the world \<open>'w\<close> the schema callback works on. The three handlers are the source's three
  function expressions; the two that read \<^verbatim>\<open>idbRequest.result\<close> take that value as their
  first argument. A schema callback that throws leaves the world as it was at the throw; the
  exception goes to whoever fired the event, never to the promise.
\<close>

record ('v, 'w) executor =
  promise :: "('v, jsval) promise"
  world :: 'w

type_synonym ('v, 'w) handler = "jsval list \<Rightarrow> ('v, 'w) executor \<Rightarrow> ('v, 'w) executor"

definition onerror_fn :: "('v, 'w) handler" where
  "onerror_fn args st =
     (let event = (case args of [] \<Rightarrow> JUndefined | a # rest \<Rightarrow> a)
      in st\<lparr>promise := reject event (promise st)\<rparr>)"

definition onsuccess_fn :: "'v \<Rightarrow> ('v, 'w) handler" where
  "onsuccess_fn result args st = st\<lparr>promise := resolve result (promise st)\<rparr>"

definition onupgradeneeded_fn :: "('v \<Rightarrow> 'w \<Rightarrow> 'w) option \<Rightarrow> 'v \<Rightarrow> ('v, 'w) handler" where
  "onupgradeneeded_fn objectStoreConstructor result args st =
     (let db = result
      in case objectStoreConstructor of
           None \<Rightarrow> st
         | Some constructor \<Rightarrow> st\<lparr>world := constructor db (world st)\<rparr>)"

text \<open>The handler properties of a browser request; \<open>None\<close> is a handler never attached.\<close>

record ('v, 'w) handlers =
  onerror :: "('v, 'w) handler option"
  onsuccess :: "('v \<Rightarrow> ('v, 'w) handler) option"
  onupgradeneeded :: "('v \<Rightarrow> ('v, 'w) handler) option"

definition no_handlers :: "('v, 'w) handlers" where
  "no_handlers = \<lparr>onerror = None, onsuccess = None, onupgradeneeded = None\<rparr>"

text \<open>
  The assignments \<^verbatim>\<open>idbRequest.onerror = f\<close>, \<^verbatim>\<open>idbRequest.onsuccess = f\<close> and
  \<^verbatim>\<open>idbRequest.onupgradeneeded = f\<close>: on a proxy they run the trap, on a browser request
  they store the handler.
\<close>

definition assign_onerror ::
  "'v request \<Rightarrow> ('v, 'w) handler \<Rightarrow>
   ('v, 'w) handlers \<times> ('v, 'w) executor \<Rightarrow> ('v, 'w) handlers \<times> ('v, 'w) executor" where
  "assign_onerror idbRequest func = (\<lambda>(hs, st).
     case idbRequest of
       Proxy r opts \<Rightarrow> (hs, set_fn opts ''onerror'' func st)
     | IDBRequest evs \<Rightarrow> (hs\<lparr>onerror := Some func\<rparr>, st)
     | IDBOpenDBRequest evs \<Rightarrow> (hs\<lparr>onerror := Some func\<rparr>, st))"

definition assign_onsuccess ::
  "'v request \<Rightarrow> ('v \<Rightarrow> ('v, 'w) handler) \<Rightarrow>
   ('v, 'w) handlers \<times> ('v, 'w) executor \<Rightarrow> ('v, 'w) handlers \<times> ('v, 'w) executor" where
  "assign_onsuccess idbRequest func = (\<lambda>(hs, st).
     case idbRequest of
       Proxy r opts \<Rightarrow> (hs, set_fn opts ''onsuccess'' (func r) st)
     | IDBRequest evs \<Rightarrow> (hs\<lparr>onsuccess := Some func\<rparr>, st)
     | IDBOpenDBRequest evs \<Rightarrow> (hs\<lparr>onsuccess := Some func\<rparr>, st))"

definition assign_onupgradeneeded ::
  "'v request \<Rightarrow> ('v \<Rightarrow> ('v, 'w) handler) \<Rightarrow>
   ('v, 'w) handlers \<times> ('v, 'w) executor \<Rightarrow> ('v, 'w) handlers \<times> ('v, 'w) executor" where
  "assign_onupgradeneeded idbRequest func = (\<lambda>(hs, st).
     case idbRequest of
       Proxy r opts \<Rightarrow> (hs, set_fn opts ''onupgradeneeded'' (func r) st)
     | IDBRequest evs \<Rightarrow> (hs\<lparr>onupgradeneeded := Some func\<rparr>, st)
     | IDBOpenDBRequest evs \<Rightarrow> (hs\<lparr>onupgradeneeded := Some func\<rparr>, st))"

text \<open>
  The executor of the adapter's promise: the handlers attached when it returns, and the
  promise and the world at that moment.
\<close>

definition IndexedDBRequestWrapper ::
  "'v request \<Rightarrow> ('v \<Rightarrow> 'w \<Rightarrow> 'w) option \<Rightarrow> 'w \<Rightarrow> ('v, 'w) handlers \<times> ('v, 'w) executor" where
  "IndexedDBRequestWrapper idbRequest objectStoreConstructor w =
     (let a0 = (no_handlers, \<lparr>promise = Pending, world = w\<rparr>);
          a1 = assign_onerror idbRequest onerror_fn a0;
          a2 = assign_onsuccess idbRequest onsuccess_fn a1
      in if instanceof_IDBOpenDBRequest idbRequest
         then assign_onupgradeneeded idbRequest (onupgradeneeded_fn objectStoreConstructor) a2
         else a2)"

text \<open>
  The engine fires an event by calling the handler stored for it, if there is one. The handlers
  of the adapter ignore the event object of a success and of an upgrade-needed event, so none
  is passed.
\<close>

fun fire :: "('v, 'w) handlers \<Rightarrow> 'v event \<Rightarrow> ('v, 'w) executor \<Rightarrow> ('v, 'w) executor" where
  "fire hs (Ev_success r) st = (case onsuccess hs of None \<Rightarrow> st | Some h \<Rightarrow> h r [] st)"
| "fire hs (Ev_error e) st = (case onerror hs of None \<Rightarrow> st | Some h \<Rightarrow> h [e] st)"
| "fire hs (Ev_upgradeneeded r) st = (case onupgradeneeded hs of None \<Rightarrow> st | Some h \<Rightarrow> h r [] st)"

fun deliver :: "('v, 'w) handlers \<Rightarrow> 'v event list \<Rightarrow> ('v, 'w) executor \<Rightarrow> ('v, 'w) executor" where
  "deliver hs [] st = st"
| "deliver hs (ev # evs) st = deliver hs evs (fire hs ev st)"




text \<open>
  The adapter's promise once the request is done: the handlers are attached, then the engine
  fires the request's events.
\<close>

definition awaited :: "'v request \<Rightarrow> ('v \<Rightarrow> 'w \<Rightarrow> 'w) option \<Rightarrow> 'w \<Rightarrow> ('v, 'w) executor" where
  "awaited idbRequest objectStoreConstructor w =
     (let (hs, st) = IndexedDBRequestWrapper idbRequest objectStoreConstructor w
      in deliver hs (events_of idbRequest) st)"

section \<open>The backend contract\<close>

text \<open>
  What the session builder asks of a backend (lines 60-92): \<^verbatim>\<open>impl.open\<close>,
  \<^verbatim>\<open>db.transaction\<close>, \<^verbatim>\<open>transaction.objectStore\<close>, \<^verbatim>\<open>objectStore.add\<close> and
  \<^verbatim>\<open>objectStore.getAll\<close>, and what a schema callback asks of the database handle
  (lines 10-18): \<^verbatim>\<open>createObjectStore\<close> and \<^verbatim>\<open>createIndex\<close>. Every call works on the
  backend's state \<open>'s\<close>. The two calls the source guards with \<^verbatim>\<open>try\<close> return \<open>Inl\<close> of
  the thrown value when they throw; the other calls are taken not to throw, as those of the
  mock never do. A handle without a \<^verbatim>\<open>createObjectStore\<close> property has \<open>None\<close> there.
\<close>

record 's IDBObjectStore =
  objectStore_add :: "entry \<Rightarrow> 's \<Rightarrow> jsval request \<times> 's"
  objectStore_getAll :: "'s \<Rightarrow> entry list request \<times> 's"

record 's IDBTransaction =
  objectStore :: "string \<Rightarrow> 's \<Rightarrow> (jsval + 's IDBObjectStore) \<times> 's"

record 's ObjectStoreWrapper =
  createIndex :: "string \<Rightarrow> string \<Rightarrow> bool \<Rightarrow> 's \<Rightarrow> 's"

record 's IDBDatabase =
  transaction :: "string list \<Rightarrow> string \<Rightarrow> 's \<Rightarrow> (jsval + 's IDBTransaction) \<times> 's"
  createObjectStore :: "(string \<Rightarrow> string \<Rightarrow> 's \<Rightarrow> 's ObjectStoreWrapper \<times> 's) option"

record 's IndexedDBFactoryWrapper =
  "open" :: "string \<Rightarrow> 's \<Rightarrow> 's IDBDatabase request \<times> 's"

section \<open>The session builder\<close>

text \<open>
  The session object of lines 82-94 (interface \<^verbatim>\<open>IIndexedDBWrapper\<close>). Each method returns
  the final state of the promise it hands out, and the backend's state after the call.
\<close>

record 's IIndexedDBWrapper =
  add :: "entry list \<Rightarrow> 's \<Rightarrow> (jsval list, jsval) promise \<times> 's"
  getAll :: "'s \<Rightarrow> (entry list, jsval) promise \<times> 's"

text \<open>\<^verbatim>\<open>iterable.map(f)\<close> for an \<open>f\<close> with effects: left to right, each call on the state the
  one before left.\<close>

fun map_st :: "('a \<Rightarrow> 's \<Rightarrow> 'b \<times> 's) \<Rightarrow> 'a list \<Rightarrow> 's \<Rightarrow> 'b list \<times> 's" where
  "map_st f [] s = ([], s)"
| "map_st f (x # xs) s =
     (let (y, s1) = f x s;
          (ys, s2) = map_st f xs s1
      in (y # ys, s2))"

definition addRequestGenerator ::
  "'s IDBObjectStore \<Rightarrow> entry \<Rightarrow> 's \<Rightarrow> (jsval, jsval) promise \<times> 's" where
  "addRequestGenerator store item s =
     (let (addRequest, s1) = objectStore_add store item s;
          wrapped = awaited addRequest None s1
      in (promise wrapped, world wrapped))"

definition wrapper_add ::
  "'s IDBObjectStore \<Rightarrow> entry list \<Rightarrow> 's \<Rightarrow> (jsval list, jsval) promise \<times> 's" where
  "wrapper_add store iterable s =
     (let (promises, s1) = map_st (addRequestGenerator store) iterable s
      in (Promise_all promises, s1))"

definition wrapper_getAll :: "'s IDBObjectStore \<Rightarrow> 's \<Rightarrow> (entry list, jsval) promise \<times> 's" where
  "wrapper_getAll store s =
     (let (getAllRequest, s1) = objectStore_getAll store s;
          wrapped = awaited getAllRequest None s1
      in (promise wrapped, world wrapped))"

text \<open>
  \<^verbatim>\<open>IndexedDBWrapper.new\<close> (lines 58-98). The program state of the two callbacks is the
  promise \<^verbatim>\<open>new\<close> returns, which they settle through \<^verbatim>\<open>resolve\<close> and \<^verbatim>\<open>reject\<close>,
  and the backend's state. \<open>new_onFulfilled\<close> is the callback given to \<^verbatim>\<open>then\<close>
  (lines 65-95), \<open>new_onRejected\<close> the one given to \<^verbatim>\<open>catch\<close> (line 96); both return
  \<^verbatim>\<open>undefined\<close> when they do not return a rejected promise.
\<close>

definition new_onFulfilled ::
  "string \<Rightarrow> 's IDBDatabase \<Rightarrow> ('s IIndexedDBWrapper, jsval) promise \<times> 's \<Rightarrow>
   (unit, jsval) promise \<times> (('s IIndexedDBWrapper, jsval) promise \<times> 's)" where
  "new_onFulfilled objectStoreName db = (\<lambda>(p, s).
     case transaction db [objectStoreName] ''readwrite'' s of
       (Inl err, s1) \<Rightarrow> (Rejected err, (p, s1))
     | (Inr tx, s1) \<Rightarrow>
         (case objectStore tx objectStoreName s1 of
            (Inl err, s2) \<Rightarrow> (Rejected err, (p, s2))
          | (Inr store, s2) \<Rightarrow>
              (Fulfilled (),
               (resolve \<lparr>add = wrapper_add store, getAll = wrapper_getAll store\<rparr> p, s2))))"

definition new_onRejected ::
  "jsval \<Rightarrow> ('s IIndexedDBWrapper, jsval) promise \<times> 's \<Rightarrow>
   (unit, jsval) promise \<times> (('s IIndexedDBWrapper, jsval) promise \<times> 's)" where
  "new_onRejected err = (\<lambda>(p, s). (Fulfilled (), (reject err p, s)))"

definition new ::
  "string \<Rightarrow> string \<Rightarrow> ('s IDBDatabase \<Rightarrow> 's \<Rightarrow> 's) \<Rightarrow> 's IndexedDBFactoryWrapper \<Rightarrow> 's \<Rightarrow>
   ('s IIndexedDBWrapper, jsval) promise \<times> 's" where
  "new databaseName objectStoreName objectStoreConstructor impl s =
     (let (request, s1) = open impl databaseName s;
          wrapped = awaited request (Some objectStoreConstructor) s1;
          (chained, t1) =
            then_p (promise wrapped) (new_onFulfilled objectStoreName) (Pending, world wrapped);
          (caught, t2) = catch_p chained new_onRejected t1
      in t2)"

text \<open>
  How the callers at lines 266-292 use a session: \<^verbatim>\<open>mock.then((db) => db.add(iterable))\<close>
  and \<^verbatim>\<open>mock.then((db) => db.getAll())\<close>, on the promise and the state \<^verbatim>\<open>new\<close> left.
\<close>

definition then_add ::
  "('s IIndexedDBWrapper, jsval) promise \<times> 's \<Rightarrow> entry list \<Rightarrow> (jsval list, jsval) promise \<times> 's" where
  "then_add m iterable = then_p (fst m) (\<lambda>db. add db iterable) (snd m)"

definition then_getAll ::
  "('s IIndexedDBWrapper, jsval) promise \<times> 's \<Rightarrow> (entry list, jsval) promise \<times> 's" where
  "then_getAll m = then_p (fst m) (\<lambda>db. getAll db) (snd m)"


section \<open>The mock backend\<close>

text \<open>
  \<^verbatim>\<open>mockImpl\<close> (lines 103-193). Its options leave a toggle \<^verbatim>\<open>undefined\<close> (\<open>None\<close>) to
  mean true. Its one piece of state is the array \<^verbatim>\<open>items\<close>, empty when the mock is built;
  the state is any record with that field, the rest of it (\<open>\<dots>\<close>) being whatever else the
  program holds. \<^verbatim>\<open>getAll\<close> hands out the array itself; the model reads it when the
  request is made.
\<close>

record MockOptions =
  shouldAdd :: "bool option"
  shouldGetAll :: "bool option"
  shouldOpen :: "bool option"
  key :: string

definition defaultMockOptions :: MockOptions where
  "defaultMockOptions =
     \<lparr>shouldAdd = Some True, shouldGetAll = Some True, shouldOpen = Some True, key = ''taskTitle''\<rparr>"

definition or_true :: "bool option \<Rightarrow> bool" where
  "or_true toggle = (case toggle of None \<Rightarrow> True | Some b \<Rightarrow> b)"

record mock_state =
  items :: "entry list"

definition mockImpl_items :: "'z \<Rightarrow> 'z mock_state_scheme" where
  "mockImpl_items z = \<lparr>items = [], \<dots> = z\<rparr>"

definition mockImpl_getAll ::
  "MockOptions \<Rightarrow> 'z mock_state_scheme \<Rightarrow> entry list request \<times> 'z mock_state_scheme" where
  "mockImpl_getAll mockOptions s =
     (Proxy (items s) \<lparr>succeed = or_true (shouldGetAll mockOptions), error = Some ''getAll''\<rparr>, s)"

definition mockImpl_add ::
  "MockOptions \<Rightarrow> entry \<Rightarrow> 'z mock_state_scheme \<Rightarrow> jsval request \<times> 'z mock_state_scheme" where
  "mockImpl_add mockOptions item s =
     (let s1 = s\<lparr>items := items s @ [item]\<rparr>
      in (Proxy (get_prop item (key mockOptions))
            \<lparr>succeed = or_true (shouldAdd mockOptions), error = Some ''add''\<rparr>, s1))"

text \<open>The object \<^verbatim>\<open>{ add, getAll }\<close> that \<^verbatim>\<open>objectStore\<close> returns (lines 164-167).\<close>

definition mockImpl_store :: "MockOptions \<Rightarrow> 'z mock_state_scheme IDBObjectStore" where
  "mockImpl_store mockOptions =
     \<lparr>objectStore_add = mockImpl_add mockOptions,
      objectStore_getAll = mockImpl_getAll mockOptions\<rparr>"

definition mockImpl_objectStore ::
  "MockOptions \<Rightarrow> string \<Rightarrow> 'z mock_state_scheme \<Rightarrow>
   (jsval + 'z mock_state_scheme IDBObjectStore) \<times> 'z mock_state_scheme" where
  "mockImpl_objectStore mockOptions objectStoreName s = (Inr (mockImpl_store mockOptions), s)"

definition mockImpl_transaction ::
  "MockOptions \<Rightarrow> string list \<Rightarrow> string \<Rightarrow> 'z mock_state_scheme \<Rightarrow>
   (jsval + 'z mock_state_scheme IDBTransaction) \<times> 'z mock_state_scheme" where
  "mockImpl_transaction mockOptions objectStoreName mode s =
     (Inr \<lparr>objectStore = mockImpl_objectStore mockOptions\<rparr>, s)"

definition mockImpl_result :: "MockOptions \<Rightarrow> 'z mock_state_scheme IDBDatabase" where
  "mockImpl_result mockOptions =
     \<lparr>transaction = mockImpl_transaction mockOptions, createObjectStore = None\<rparr>"

definition mockImpl :: "MockOptions \<Rightarrow> 'z mock_state_scheme IndexedDBFactoryWrapper" where
  "mockImpl mockOptions =
     \<lparr>open = (\<lambda>databaseName s.
        (Proxy (mockImpl_result mockOptions)
           \<lparr>succeed = or_true (shouldOpen mockOptions), error = Some ''open''\<rparr>, s))\<rparr>"

section \<open>The callers in the file\<close>

text \<open>
  \<^verbatim>\<open>toDoListObjectStoreConstructor\<close> (lines 195-207): one object store and six indexes. On
  a handle without \<^verbatim>\<open>createObjectStore\<close> its first call throws a \<^verbatim>\<open>TypeError\<close>, before
  anything changed.
\<close>

definition toDoListObjectStoreConstructor :: "'s IDBDatabase \<Rightarrow> 's \<Rightarrow> 's" where
  "toDoListObjectStoreConstructor db s =
     (case createObjectStore db of
        None \<Rightarrow> s
      | Some create \<Rightarrow>
          (let (store, s0) = create ''toDoList'' ''taskTitle'' s;
               s1 = createIndex store ''hours'' ''hours'' False s0;
               s2 = createIndex store ''minutes'' ''minutes'' False s1;
               s3 = createIndex store ''day'' ''day'' False s2;
               s4 = createIndex store ''month'' ''month'' False s3;
               s5 = createIndex store ''year'' ''year'' False s4
           in createIndex store ''notified'' ''notified'' False s5))"

text \<open>The four mocked sessions of lines 210-213, each on a mock just built.\<close>

definition withWorkingMockedIndexedDB ::
  "'z \<Rightarrow> ('z mock_state_scheme IIndexedDBWrapper, jsval) promise \<times> 'z mock_state_scheme" where
  "withWorkingMockedIndexedDB z =
     new ''some_named_database'' ''toDoList'' toDoListObjectStoreConstructor
       (mockImpl defaultMockOptions) (mockImpl_items z)"

definition withBrokenOpen ::
  "'z \<Rightarrow> ('z mock_state_scheme IIndexedDBWrapper, jsval) promise \<times> 'z mock_state_scheme" where
  "withBrokenOpen z =
     new ''some_named_database'' ''toDoList'' toDoListObjectStoreConstructor
       (mockImpl \<lparr>shouldAdd = None, shouldGetAll = None, shouldOpen = Some False, key = ''taskTitle''\<rparr>)
       (mockImpl_items z)"

definition withBrokenAdd ::
  "'z \<Rightarrow> ('z mock_state_scheme IIndexedDBWrapper, jsval) promise \<times> 'z mock_state_scheme" where
  "withBrokenAdd z =
     new ''some_named_database'' ''toDoList'' toDoListObjectStoreConstructor
       (mockImpl \<lparr>shouldAdd = Some False, shouldGetAll = None, shouldOpen = None, key = ''taskTitle''\<rparr>)
       (mockImpl_items z)"


text \<open>The entry the callers add (lines 268-270); \<open>random\<close> is the printed random number.\<close>

definition newItem :: "string \<Rightarrow> entry" where
  "newItem random =
     [(''taskTitle'', JStr (''Walk dog #'' @ random)), (''hours'', JNum 19), (''minutes'', JNum 30),
      (''day'', JNum 24), (''month'', JNum 11), (''year'', JNum 2013), (''notified'', JStr ''no'')]"


section \<open>The adapter on each kind of request\<close>

lemma wrapper_Proxy:
  "IndexedDBRequestWrapper (Proxy r opts) ctor w =
     (no_handlers,
      \<lparr>promise = (if succeed opts then Fulfilled r else Rejected (error_payload opts)), world = w\<rparr>)"
  by (simp add: IndexedDBRequestWrapper_def assign_onerror_def assign_onsuccess_def
      instanceof_IDBOpenDBRequest_def set_fn_def onerror_fn_def onsuccess_fn_def
      resolve_def reject_def Let_def)

lemma wrapper_IDBRequest:
  "IndexedDBRequestWrapper (IDBRequest evs) ctor w =
     (\<lparr>onerror = Some onerror_fn, onsuccess = Some onsuccess_fn, onupgradeneeded = None\<rparr>,
      \<lparr>promise = Pending, world = w\<rparr>)"
  by (simp add: IndexedDBRequestWrapper_def assign_onerror_def assign_onsuccess_def
      instanceof_IDBOpenDBRequest_def no_handlers_def)

lemma wrapper_IDBOpenDBRequest:
  "IndexedDBRequestWrapper (IDBOpenDBRequest evs) ctor w =
     (\<lparr>onerror = Some onerror_fn, onsuccess = Some onsuccess_fn,
       onupgradeneeded = Some (onupgradeneeded_fn ctor)\<rparr>,
      \<lparr>promise = Pending, world = w\<rparr>)"
  by (simp add: IndexedDBRequestWrapper_def assign_onerror_def assign_onsuccess_def
      assign_onupgradeneeded_def instanceof_IDBOpenDBRequest_def no_handlers_def)

lemma awaited_Proxy:
  "awaited (Proxy r opts) ctor w =
     \<lparr>promise = (if succeed opts then Fulfilled r else Rejected (error_payload opts)), world = w\<rparr>"
  by (simp add: awaited_def wrapper_Proxy events_of_def)



subsection \<open>Runs of events\<close>









section \<open>The join of a batch\<close>


lemma Promise_all_Rejected: "xs \<noteq> [] \<Longrightarrow> Promise_all (map (\<lambda>x. Rejected e) xs) = Rejected e"
  by (cases xs) simp_all


section \<open>Sessions over the mock\<close>

lemma addRequestGenerator_mock:
  "addRequestGenerator (mockImpl_store mockOptions) item s =
     ((if or_true (shouldAdd mockOptions) then Fulfilled (get_prop item (key mockOptions))
       else Rejected (JObj [(''error'', JStr ''We messed up: add'')])),
      s\<lparr>items := items s @ [item]\<rparr>)"
  by (simp add: addRequestGenerator_def mockImpl_store_def mockImpl_add_def awaited_Proxy
      error_payload_def Let_def)

lemma map_st_mock:
  "map_st (addRequestGenerator (mockImpl_store mockOptions)) entries s =
     (map (\<lambda>item. if or_true (shouldAdd mockOptions) then Fulfilled (get_prop item (key mockOptions))
                   else Rejected (JObj [(''error'', JStr ''We messed up: add'')])) entries,
      s\<lparr>items := items s @ entries\<rparr>)"
  by (induction entries arbitrary: s) (simp_all add: addRequestGenerator_mock)

lemma wrapper_add_mock:
  "wrapper_add (mockImpl_store mockOptions) entries s =
     (Promise_all
        (map (\<lambda>item. if or_true (shouldAdd mockOptions) then Fulfilled (get_prop item (key mockOptions))
                      else Rejected (JObj [(''error'', JStr ''We messed up: add'')])) entries),
      s\<lparr>items := items s @ entries\<rparr>)"
  by (simp add: wrapper_add_def map_st_mock)

lemma wrapper_getAll_mock:
  "wrapper_getAll (mockImpl_store mockOptions) s =
     ((if or_true (shouldGetAll mockOptions) then Fulfilled (items s)
       else Rejected (JObj [(''error'', JStr ''We messed up: getAll'')])), s)"
  by (simp add: wrapper_getAll_def mockImpl_store_def mockImpl_getAll_def awaited_Proxy
      error_payload_def)

lemma new_mock:
  "new databaseName objectStoreName ctor (mockImpl mockOptions) s =
     ((if or_true (shouldOpen mockOptions)
       then Fulfilled \<lparr>add = wrapper_add (mockImpl_store mockOptions),
                       getAll = wrapper_getAll (mockImpl_store mockOptions)\<rparr>
       else Rejected (JObj [(''error'', JStr ''We messed up: open'')])), s)"
  by (simp add: new_def mockImpl_def awaited_Proxy then_p_def catch_p_def new_onFulfilled_def
      new_onRejected_def mockImpl_result_def mockImpl_transaction_def mockImpl_objectStore_def
      resolve_def reject_def error_payload_def)

lemma then_add_mock:
  "or_true (shouldOpen mockOptions) \<Longrightarrow>
   then_add (new databaseName objectStoreName ctor (mockImpl mockOptions) s) entries =
     wrapper_add (mockImpl_store mockOptions) entries s"
  by (simp add: then_add_def then_p_def new_mock)

lemma then_getAll_mock:
  "or_true (shouldOpen mockOptions) \<Longrightarrow>
   then_getAll (new databaseName objectStoreName ctor (mockImpl mockOptions) s) =
     wrapper_getAll (mockImpl_store mockOptions) s"
  by (simp add: then_getAll_def then_p_def new_mock)


section \<open>Reading the key of an entry\<close>





section \<open>The claims\<close>





text \<open>
  Claim C3. On a mock whose open toggle is false, \<^verbatim>\<open>new\<close> rejects with the payload
  \<^verbatim>\<open>{ error: 'We messed up: open' }\<close>; an add and a query chained on it reject with the
  same payload, and the mock's state is what it was: nothing is stored.
\<close>

theorem open_failure_rejects:
  assumes "shouldOpen mockOptions = Some False"
  shows "new databaseName objectStoreName ctor (mockImpl mockOptions) s =
           (Rejected (JObj [(''error'', JStr ''We messed up: open'')]), s)
       \<and> then_add (new databaseName objectStoreName ctor (mockImpl mockOptions) s) entries =
           (Rejected (JObj [(''error'', JStr ''We messed up: open'')]), s)
       \<and> then_getAll (new databaseName objectStoreName ctor (mockImpl mockOptions) s) =
           (Rejected (JObj [(''error'', JStr ''We messed up: open'')]), s)"
  using assms by (simp add: new_mock or_true_def then_add_def then_getAll_def then_p_def)

theorem open_failure_rejects_witness:
  "withBrokenOpen () = (Rejected (JObj [(''error'', JStr ''We messed up: open'')]), \<lparr>items = []\<rparr>)
 \<and> then_add (withBrokenOpen ()) [newItem ''R''] =
      (Rejected (JObj [(''error'', JStr ''We messed up: open'')]), \<lparr>items = []\<rparr>)
 \<and> then_getAll (withBrokenOpen ()) =
      (Rejected (JObj [(''error'', JStr ''We messed up: open'')]), \<lparr>items = []\<rparr>)"
  unfolding withBrokenOpen_def mockImpl_items_def
  by (rule open_failure_rejects) simp

text \<open>
  Claim C4, as amended. On a mock whose add toggle is false and whose open toggle succeeds,
  the session's add of a batch that is not empty rejects with the payload
  \<^verbatim>\<open>{ error: 'We messed up: add' }\<close>, and every entry of the batch has still been appended
  to the mock's array, in order. The add of the empty batch resolves with the empty array and
  leaves the state as it was.
\<close>

theorem failed_add_still_appends:
  assumes "or_true (shouldOpen mockOptions)"
      and "shouldAdd mockOptions = Some False"
      and "entries \<noteq> []"
  shows "then_add (new databaseName objectStoreName ctor (mockImpl mockOptions) s) entries =
           (Rejected (JObj [(''error'', JStr ''We messed up: add'')]),
            s\<lparr>items := items s @ entries\<rparr>)
       \<and> then_add (new databaseName objectStoreName ctor (mockImpl mockOptions) s) [] =
           (Fulfilled [], s)"
  using assms
  by (simp add: then_add_mock wrapper_add_mock or_true_def Promise_all_Rejected)

theorem failed_add_still_appends_witness:
  "then_add (withBrokenAdd ()) [newItem ''1'', newItem ''2''] =
     (Rejected (JObj [(''error'', JStr ''We messed up: add'')]),
      \<lparr>items = [newItem ''1'', newItem ''2'']\<rparr>)"
proof -
  have "then_add (withBrokenAdd ()) [newItem ''1'', newItem ''2''] =
     (Rejected (JObj [(''error'', JStr ''We messed up: add'')]),
      (mockImpl_items ())\<lparr>items := items (mockImpl_items ()) @ [newItem ''1'', newItem ''2'']\<rparr>)"
    unfolding withBrokenAdd_def
    by (rule failed_add_still_appends [THEN conjunct1]) (simp_all add: or_true_def)
  then show ?thesis by (simp add: mockImpl_items_def)
qed

text \<open>
  Claim C4 as it was stated has no condition on the batch. With the add toggle false, the add
  of the empty batch issues no request, and \<^verbatim>\<open>Promise.all([])\<close> resolves: the session's add
  resolves with the empty array instead of rejecting.
\<close>

theorem failed_add_of_nothing_resolves:
  "then_add (withBrokenAdd ()) [] = (Fulfilled [], \<lparr>items = []\<rparr>)
 \<and> fst (then_add (withBrokenAdd ()) []) \<noteq> Rejected (JObj [(''error'', JStr ''We messed up: add'')])"
  by (simp add: withBrokenAdd_def then_add_mock or_true_def wrapper_add_mock mockImpl_items_def)




text \<open>
  Claim C7. The adapter attaches the upgrade-needed handler exactly when the request is an
  instance of \<^verbatim>\<open>IDBOpenDBRequest\<close>; on any other request none is attached, and attaching
  the handlers never runs the schema callback. When the
  upgrade-needed event fires on a container-open request, the handler applies the schema
  callback it was given to the request's result and leaves the promise as it was (it does
  nothing at all when no callback was given); a run that consists of the upgrade-needed event
  alone ends with the callback applied and the promise still pending. On a request that is not
  a container-open request the event changes nothing.
\<close>

theorem upgradeneeded_runs_schema_callback:
  "onupgradeneeded (fst (IndexedDBRequestWrapper idbRequest objectStoreConstructor w)) =
     (if instanceof_IDBOpenDBRequest idbRequest
      then Some (onupgradeneeded_fn objectStoreConstructor) else None)
 \<and> fire (fst (IndexedDBRequestWrapper (IDBOpenDBRequest evs) (Some constructor) w))
      (Ev_upgradeneeded db) st = \<lparr>promise = promise st, world = constructor db (world st)\<rparr>
 \<and> fire (fst (IndexedDBRequestWrapper (IDBOpenDBRequest evs) None w)) (Ev_upgradeneeded db) st = st
 \<and> fire (fst (IndexedDBRequestWrapper (IDBRequest evs) objectStoreConstructor w))
      (Ev_upgradeneeded db) st = st
 \<and> awaited (IDBOpenDBRequest [Ev_upgradeneeded db]) (Some constructor) w =
      \<lparr>promise = Pending, world = constructor db w\<rparr>
 \<and> world (snd (IndexedDBRequestWrapper idbRequest objectStoreConstructor w)) = w"
  by (cases idbRequest)
     (simp_all add: wrapper_IDBRequest wrapper_IDBOpenDBRequest wrapper_Proxy
        instanceof_IDBOpenDBRequest_def no_handlers_def onupgradeneeded_fn_def awaited_def
        events_of_def)

text \<open>
  Claim C8. Let the open request of a backend end fulfilled with the handle \<open>db\<close>. If
  \<^verbatim>\<open>db.transaction\<close> throws \<open>err\<close>, the promise of \<^verbatim>\<open>new\<close> is rejected with \<open>err\<close>
  itself; if it returns a transaction whose \<^verbatim>\<open>objectStore\<close> throws \<open>err\<close>, likewise.
  In both cases the backend is left in the state the throwing call left it in: the call is not
  made again and nothing else is tried.
\<close>

theorem new_rejects_when_transaction_throws:
  assumes "open impl databaseName s = (request, s1)"
      and "awaited request (Some objectStoreConstructor) s1 = \<lparr>promise = Fulfilled db, world = s2\<rparr>"
  shows "(transaction db [objectStoreName] ''readwrite'' s2 = (Inl err, s3) \<longrightarrow>
            new databaseName objectStoreName objectStoreConstructor impl s = (Rejected err, s3))
       \<and> (transaction db [objectStoreName] ''readwrite'' s2 = (Inr tx, s3) \<and>
          objectStore tx objectStoreName s3 = (Inl err, s4) \<longrightarrow>
            new databaseName objectStoreName objectStoreConstructor impl s = (Rejected err, s4))"
  using assms
  by (simp add: new_def then_p_def catch_p_def new_onFulfilled_def new_onRejected_def reject_def)

text \<open>
  Two backends whose state counts the calls made on the handle. On the first, a browser
  request that fires upgrade-needed and then success, \<^verbatim>\<open>db.transaction\<close> throws; on the
  second, a proxy that succeeds, \<^verbatim>\<open>transaction.objectStore\<close> throws.
\<close>

theorem new_rejects_when_transaction_throws_witness:
  "new ''some_named_database'' ''toDoList'' toDoListObjectStoreConstructor
     \<lparr>open = (\<lambda>databaseName n.
        (IDBOpenDBRequest
           [Ev_upgradeneeded
              \<lparr>transaction = (\<lambda>names mode n. (Inl (JStr ''NotFoundError''), Suc n)),
               createObjectStore = None\<rparr>,
            Ev_success
              \<lparr>transaction = (\<lambda>names mode n. (Inl (JStr ''NotFoundError''), Suc n)),
               createObjectStore = None\<rparr>], n))\<rparr>
     (0::nat) = (Rejected (JStr ''NotFoundError''), 1)
 \<and> new ''some_named_database'' ''toDoList'' toDoListObjectStoreConstructor
     \<lparr>open = (\<lambda>databaseName n.
        (Proxy \<lparr>transaction = (\<lambda>names mode n.
                   (Inr \<lparr>objectStore = (\<lambda>name n. (Inl (JStr ''NotFoundError''), Suc n))\<rparr>, Suc n)),
                createObjectStore = None\<rparr>
           \<lparr>succeed = True, error = Some ''open''\<rparr>, n))\<rparr>
     (0::nat) = (Rejected (JStr ''NotFoundError''), 2)"
proof (intro conjI)
  let ?db = "\<lparr>transaction = (\<lambda>names mode n. (Inl (JStr ''NotFoundError''), Suc n)),
              createObjectStore = None\<rparr> :: nat IDBDatabase"
  let ?req = "IDBOpenDBRequest [Ev_upgradeneeded ?db, Ev_success ?db]"
  let ?impl = "\<lparr>open = (\<lambda>databaseName n. (?req, n))\<rparr>"
  have o: "open ?impl ''some_named_database'' 0 = (?req, 0)"
    by simp
  have a: "awaited ?req (Some toDoListObjectStoreConstructor) 0 = \<lparr>promise = Fulfilled ?db, world = 0\<rparr>"
    by (simp add: awaited_def wrapper_IDBOpenDBRequest events_of_def onsuccess_fn_def resolve_def
        onupgradeneeded_fn_def toDoListObjectStoreConstructor_def)
  have t: "transaction ?db [''toDoList''] ''readwrite'' 0 = (Inl (JStr ''NotFoundError''), 1)"
    by simp
  from new_rejects_when_transaction_throws [OF o a, THEN conjunct1, rule_format, OF t]
  show "new ''some_named_database'' ''toDoList'' toDoListObjectStoreConstructor ?impl 0 =
          (Rejected (JStr ''NotFoundError''), 1)" .
next
  let ?tx = "\<lparr>objectStore = (\<lambda>name n. (Inl (JStr ''NotFoundError''), Suc n))\<rparr> :: nat IDBTransaction"
  let ?db = "\<lparr>transaction = (\<lambda>names mode n. (Inr ?tx, Suc n)), createObjectStore = None\<rparr>"
  let ?req = "Proxy ?db \<lparr>succeed = True, error = Some ''open''\<rparr>"
  let ?impl = "\<lparr>open = (\<lambda>databaseName n. (?req, n))\<rparr>"
  have o: "open ?impl ''some_named_database'' 0 = (?req, 0)"
    by simp
  have a: "awaited ?req (Some toDoListObjectStoreConstructor) 0 = \<lparr>promise = Fulfilled ?db, world = 0\<rparr>"
    by (simp add: awaited_Proxy)
  have t: "transaction ?db [''toDoList''] ''readwrite'' 0 = (Inr ?tx, 1)
         \<and> objectStore ?tx ''toDoList'' 1 = (Inl (JStr ''NotFoundError''), 2)"
    by simp
  from new_rejects_when_transaction_throws [OF o a, THEN conjunct2, rule_format, OF t]
  show "new ''some_named_database'' ''toDoList'' toDoListObjectStoreConstructor ?impl 0 =
          (Rejected (JStr ''NotFoundError''), 2)" .
qed

text \<open>
  Claim C9. On a mock just built whose open and query toggles succeed, a query made through
  the session before anything was added resolves with the empty sequence.
\<close>

theorem getAll_on_fresh_mock:
  assumes "or_true (shouldOpen mockOptions)"
      and "or_true (shouldGetAll mockOptions)"
  shows "then_getAll (new databaseName objectStoreName ctor (mockImpl mockOptions) (mockImpl_items z)) =
           (Fulfilled [], mockImpl_items z)"
  using assms
  by (simp add: then_getAll_mock wrapper_getAll_mock mockImpl_items_def)

theorem getAll_on_fresh_mock_witness:
  "then_getAll (withWorkingMockedIndexedDB ()) = (Fulfilled [], \<lparr>items = []\<rparr>)"
proof -
  have "then_getAll (withWorkingMockedIndexedDB ()) = (Fulfilled [], mockImpl_items ())"
    unfolding withWorkingMockedIndexedDB_def
    by (rule getAll_on_fresh_mock) (simp_all add: defaultMockOptions_def or_true_def)
  then show ?thesis by (simp add: mockImpl_items_def)
qed

text \<open>
  Claim C10. Building a session over the mock never runs the schema callback. Whatever the
  callback would do to the program's state, \<^verbatim>\<open>new\<close> leaves the state as it found it, and
  its result does not depend on which callback it was given; the request the mock's
  \<^verbatim>\<open>open\<close> returns is not an instance of \<^verbatim>\<open>IDBOpenDBRequest\<close>, the adapter attaches no
  upgrade-needed handler to it, and the adapter's run on it leaves the state untouched.
\<close>

theorem mock_never_runs_schema_callback:
  "snd (new databaseName objectStoreName objectStoreConstructor (mockImpl mockOptions) s) = s
 \<and> new databaseName objectStoreName objectStoreConstructor (mockImpl mockOptions) s =
     new databaseName objectStoreName another (mockImpl mockOptions) s
 \<and> \<not> instanceof_IDBOpenDBRequest (fst (open (mockImpl mockOptions) databaseName s))
 \<and> onupgradeneeded (fst (IndexedDBRequestWrapper (fst (open (mockImpl mockOptions) databaseName s))
      (Some objectStoreConstructor) s)) = None
 \<and> world (awaited (fst (open (mockImpl mockOptions) databaseName s)) (Some objectStoreConstructor) s) = s"
proof (intro conjI)
  show "snd (new databaseName objectStoreName objectStoreConstructor (mockImpl mockOptions) s) = s"
    by (simp add: new_mock)
  show "new databaseName objectStoreName objectStoreConstructor (mockImpl mockOptions) s =
     new databaseName objectStoreName another (mockImpl mockOptions) s"
    by (simp add: new_mock)
  show "\<not> instanceof_IDBOpenDBRequest (fst (open (mockImpl mockOptions) databaseName s))"
    by (simp add: mockImpl_def instanceof_IDBOpenDBRequest_def)
  show "onupgradeneeded (fst (IndexedDBRequestWrapper (fst (open (mockImpl mockOptions) databaseName s))
      (Some objectStoreConstructor) s)) = None"
    by (simp add: mockImpl_def wrapper_Proxy no_handlers_def)
  show "world (awaited (fst (open (mockImpl mockOptions) databaseName s)) (Some objectStoreConstructor) s) = s"
    by (simp add: mockImpl_def awaited_Proxy)
qed

end
